theory Spec2Isabelle
  imports Main "HOL-Library.AList"
begin

section \<open>The terminal and CLI session manager of the backend server\<close>

text \<open>
  The development embeds the socket handlers of class \<open>MatatRealServer\<close>: the two
  registries \<open>terminals\<close> and \<open>cliProcesses\<close>, the handlers that read and write them
  (\<open>createTerminal\<close>, \<open>startCLI\<close>, \<open>sendCLICommand\<close>, \<open>buildEnrichedPrompt\<close>,
  \<open>stopCLI\<close>, \<open>checkCLIAvailability\<close>, \<open>cleanup\<close>) and the callbacks registered on a
  pseudo-terminal process (\<open>onData\<close>, \<open>onExit\<close>).

  Strings are byte strings: a character outside ASCII is its UTF-8 encoding, which is
  what reaches the pseudo-terminal. A JavaScript \<open>Map\<close> keeps its entries in insertion
  order, \<open>set\<close> on a key that is present replaces the value where it stands, and
  \<open>delete\<close> removes the entry: an association list with \<open>AList.update\<close>,
  \<open>AList.delete\<close> and \<open>map_of\<close>. Socket objects and pseudo-terminal handles are
  compared by identity in the source; they are numbers here, a handle being the index of
  its process in the list of processes spawned so far.

  The server runs on one event loop: a handler runs to its end before the next event is
  taken, so a handler is a function from the state to the state, and the \<open>then\<close>
  callback of \<open>startCLI\<close> is an event of its own. What lies outside the source is a
  parameter of the model: the clock reading of an event, the data and the exit of a
  process, and the events of the child spawned by the availability check. Of the
  library calls, \<open>child_process.spawn\<close> is modelled with its synchronous throw on an
  empty file name, which rejects the promise of the availability check;
  \<open>pty.spawn\<close>, \<open>write\<close>, \<open>resize\<close> and \<open>kill\<close> of a pseudo-terminal are taken to
  return. A payload is an object whose fields have the types the front end sends:
  identifiers and texts are strings, sizes are numbers, the context is an object of
  optional strings, and a field may be missing.
\<close>

subsection \<open>Data\<close>

type_synonym socket_id = nat
type_synonym handle = nat

text \<open>An entry of \<open>this.terminals\<close>: \<open>{ id, ptyProcess, socket, createdAt }\<close>.\<close>

record terminal =
  terminal_id :: string
  ptyProcess :: handle
  socket :: socket_id
  createdAt :: nat

text \<open>An entry of \<open>this.cliProcesses\<close>: \<open>{ type, active, startedAt }\<close>.\<close>

record cli_process =
  cli_type :: string
  active :: bool
  startedAt :: nat

text \<open>The messages the server emits on a socket.\<close>

datatype notification =
    TerminalOutput string string
  | TerminalExit string int "string option"
  | TerminalCreated string string string
  | CliError string "string option"
  | CliStarted string string string
  | CliCommandSent string string string
  | CliStopped string string

text \<open>
  A pseudo-terminal process as the server sees it: the options it was spawned with, the
  \<open>terminalId\<close> and \<open>socket\<close> captured by its \<open>onData\<close> and \<open>onExit\<close> callbacks, the
  data written to it so far, and whether its exit has been reported.
\<close>

record pty =
  pty_shell :: string
  pty_cols :: nat
  pty_rows :: nat
  pty_cwd :: string
  handler_terminalId :: string
  handler_socket :: socket_id
  written :: "string list"
  exited :: bool

text \<open>
  A call of \<open>checkCLIAvailability\<close> whose promise has not settled yet, with what the
  \<open>then\<close> callback of \<open>startCLI\<close> has captured: the socket, the type, the terminal
  identifier and the terminal entry found when \<open>startCLI\<close> ran.
\<close>

record probe =
  probe_socket :: socket_id
  probe_type :: string
  probe_terminalId :: string
  probe_terminal :: terminal

text \<open>
  The server: the two maps, the configuration read by \<open>getShell\<close> and
  \<open>createTerminal\<close>, and the world outside it: the processes spawned, the kill signals
  sent (by handle, in order), the notifications emitted (by socket, in order) and the
  pending availability probes.
\<close>

record server =
  terminals :: "(string \<times> terminal) list"
  cliProcesses :: "(string \<times> cli_process) list"
  workspaceRoot :: string
  platform :: string
  env_SHELL :: "string option"
  ptys :: "pty list"
  kills :: "handle list"
  emitted :: "(socket_id \<times> notification) list"
  pending :: "probe list"

text \<open>The payloads of the inbound events.\<close>

record create_data =
  cd_terminalId :: "string option"
  cd_cols :: "nat option"
  cd_rows :: "nat option"
  cd_cwd :: "string option"

record cli_context =
  currentFile :: "string option"
  selectedCode :: "string option"
  projectInfo :: "string option"

subsection \<open>JavaScript values\<close>

text \<open>
  \<open>a || b\<close> yields \<open>b\<close> when \<open>a\<close> is falsy: a field that is missing, the empty string
  and the number zero are all falsy.
\<close>

definition truthy :: "string option \<Rightarrow> bool" where
  "truthy v = (case v of None \<Rightarrow> False | Some x \<Rightarrow> x \<noteq> [])"

definition or_string :: "string option \<Rightarrow> string \<Rightarrow> string" where
  "or_string v d = (case v of None \<Rightarrow> d | Some x \<Rightarrow> if x = [] then d else x)"

definition or_nat :: "nat option \<Rightarrow> nat \<Rightarrow> nat" where
  "or_nat v d = (case v of None \<Rightarrow> d | Some x \<Rightarrow> if x = 0 then d else x)"

text \<open>The decimal rendering of a non-negative integer in a template literal.\<close>

definition digit_char :: "nat \<Rightarrow> char" where
  "digit_char d = char_of (48 + d)"

fun decimal :: "nat \<Rightarrow> string" where
  "decimal n = (if n < 10 then [digit_char n] else decimal (n div 10) @ [digit_char (n mod 10)])"

declare decimal.simps [simp del]

text \<open>The three emoji of the prompt template, in UTF-8, and the control characters.\<close>

definition emoji_file_folder :: string where
  "emoji_file_folder = [CHR 0xF0, CHR 0x9F, CHR 0x93, CHR 0x81]"

definition emoji_direct_hit :: string where
  "emoji_direct_hit = [CHR 0xF0, CHR 0x9F, CHR 0x8E, CHR 0xAF]"

definition emoji_open_folder :: string where
  "emoji_open_folder = [CHR 0xF0, CHR 0x9F, CHR 0x93, CHR 0x82]"

definition LF :: string where "LF = [CHR 0x0A]"
definition CR :: string where "CR = [CHR 0x0D]"
definition CTRL_C :: string where "CTRL_C = [CHR 0x03]"
definition fence :: string where "fence = [CHR 0x60, CHR 0x60, CHR 0x60]"

subsection \<open>Effects\<close>

definition emit :: "socket_id \<Rightarrow> notification \<Rightarrow> server \<Rightarrow> server" where
  "emit sock n s = s\<lparr>emitted := emitted s @ [(sock, n)]\<rparr>"

text \<open>\<open>ptyProcess.write(data)\<close>, \<open>ptyProcess.resize(cols, rows)\<close>, \<open>ptyProcess.kill()\<close>.\<close>

definition pty_write :: "handle \<Rightarrow> string \<Rightarrow> server \<Rightarrow> server" where
  "pty_write h d s =
     (if h < length (ptys s)
      then s\<lparr>ptys := (ptys s)[h := (ptys s ! h)\<lparr>written := written (ptys s ! h) @ [d]\<rparr>]\<rparr>
      else s)"

definition pty_resize :: "handle \<Rightarrow> nat \<Rightarrow> nat \<Rightarrow> server \<Rightarrow> server" where
  "pty_resize h c r s =
     (if h < length (ptys s)
      then s\<lparr>ptys := (ptys s)[h := (ptys s ! h)\<lparr>pty_cols := c, pty_rows := r\<rparr>]\<rparr>
      else s)"

definition pty_kill :: "handle \<Rightarrow> server \<Rightarrow> server" where
  "pty_kill h s = s\<lparr>kills := kills s @ [h]\<rparr>"

subsection \<open>The handlers\<close>

definition getShell :: "server \<Rightarrow> string" where
  "getShell s =
     (if platform s = ''win32'' then ''powershell.exe''
      else or_string (env_SHELL s) ''bash'')"

text \<open>
  \<open>createTerminal(socket, data)\<close>, with the reading \<open>now\<close> of the clock that
  \<open>Date.now()\<close> and \<open>new Date()\<close> return. It spawns a process, stores the entry under
  the identifier, registers the two callbacks (the fields \<open>handler_terminalId\<close> and
  \<open>handler_socket\<close> of the process) and emits \<open>terminal:created\<close>.
\<close>

definition createTerminal_id :: "create_data \<Rightarrow> nat \<Rightarrow> string" where
  "createTerminal_id data now = or_string (cd_terminalId data) (''terminal_'' @ decimal now)"

definition createTerminal :: "socket_id \<Rightarrow> create_data \<Rightarrow> nat \<Rightarrow> server \<Rightarrow> server" where
  "createTerminal sock data now s =
     (let terminalId = createTerminal_id data now;
          shell = getShell s;
          h = length (ptys s);
          p = \<lparr>pty_shell = shell,
               pty_cols = or_nat (cd_cols data) 120,
               pty_rows = or_nat (cd_rows data) 30,
               pty_cwd = or_string (cd_cwd data) (workspaceRoot s),
               handler_terminalId = terminalId,
               handler_socket = sock,
               written = [],
               exited = False\<rparr>;
          s1 = s\<lparr>ptys := ptys s @ [p]\<rparr>;
          s2 = s1\<lparr>terminals := AList.update terminalId
                 \<lparr>terminal_id = terminalId, ptyProcess = h, socket = sock, createdAt = now\<rparr>
                 (terminals s1)\<rparr>
      in emit sock (TerminalCreated terminalId shell (or_string (cd_cwd data) (workspaceRoot s))) s2)"

text \<open>The callback of \<open>ptyProcess.onData\<close> of process \<open>h\<close>.\<close>

definition onData :: "handle \<Rightarrow> string \<Rightarrow> server \<Rightarrow> server" where
  "onData h d s =
     (if h < length (ptys s) \<and> \<not> exited (ptys s ! h)
      then emit (handler_socket (ptys s ! h)) (TerminalOutput (handler_terminalId (ptys s ! h)) d) s
      else s)"

text \<open>
  The callback of \<open>ptyProcess.onExit\<close> of process \<open>h\<close>: it emits \<open>terminal:exit\<close> and
  deletes the entry of \<open>this.terminals\<close> under the captured identifier. A process
  reports its exit once.
\<close>

definition onExit :: "handle \<Rightarrow> int \<Rightarrow> string option \<Rightarrow> server \<Rightarrow> server" where
  "onExit h exitCode signal s =
     (if h < length (ptys s) \<and> \<not> exited (ptys s ! h)
      then (let terminalId = handler_terminalId (ptys s ! h);
                s1 = emit (handler_socket (ptys s ! h)) (TerminalExit terminalId exitCode signal) s;
                s2 = s1\<lparr>terminals := AList.delete terminalId (terminals s1)\<rparr>
            in s2\<lparr>ptys := (ptys s2)[h := (ptys s2 ! h)\<lparr>exited := True\<rparr>]\<rparr>)
      else s)"

text \<open>The handlers of \<open>terminal:input\<close> and \<open>terminal:resize\<close>.\<close>

definition terminal_input :: "string \<Rightarrow> string \<Rightarrow> server \<Rightarrow> server" where
  "terminal_input terminalId input s =
     (case map_of (terminals s) terminalId of
        Some t \<Rightarrow> pty_write (ptyProcess t) input s
      | None \<Rightarrow> s)"

definition terminal_resize :: "string \<Rightarrow> nat \<Rightarrow> nat \<Rightarrow> server \<Rightarrow> server" where
  "terminal_resize terminalId c r s =
     (case map_of (terminals s) terminalId of
        Some t \<Rightarrow> pty_resize (ptyProcess t) c r s
      | None \<Rightarrow> s)"

text \<open>
  \<open>spawn(file, args, options)\<close> of Node's \<open>child_process\<close>: it validates the file
  name and throws at once, before any child exists, when the name is the empty string;
  otherwise it returns a child, whose events (\<open>error\<close>, and \<open>close\<close> with the exit
  code, \<open>null\<close> when a signal ended the child) arrive later. A binary that cannot be
  found is reported by the \<open>error\<close> event of the child, not by a throw. The events the
  child emits, in order, are a parameter.
\<close>

datatype child_event = Close "int option" | Error

datatype spawn_result = Throws string | Child "child_event list"

definition ERR_INVALID_ARG_VALUE :: string where
  "ERR_INVALID_ARG_VALUE =
     ''The argument '' @ [CHR 0x27] @ ''file'' @ [CHR 0x27] @ '' cannot be empty. Received ''
       @ [CHR 0x27, CHR 0x27]"

definition child_process_spawn :: "string \<Rightarrow> child_event list \<Rightarrow> spawn_result" where
  "child_process_spawn file evs =
     (if file = [] then Throws ERR_INVALID_ARG_VALUE else Child evs)"

text \<open>
  \<open>checkCLIAvailability(type)\<close> returns a promise whose executor spawns
  \<open>type --version\<close> and registers two callbacks: the child's \<open>close\<close> event resolves
  the promise to \<open>code === 0\<close>, its \<open>error\<close> event resolves it to \<open>false\<close>. A promise
  settles once: later calls of \<open>resolve\<close> do nothing. An exception thrown inside the
  executor rejects the promise with the exception.
\<close>

datatype promise = Pending | Resolved bool | Rejected string

fun resolve :: "promise \<Rightarrow> child_event \<Rightarrow> promise" where
  "resolve Pending (Close code) = Resolved (code = Some 0)"
| "resolve Pending Error = Resolved False"
| "resolve p ev = p"

definition checkCLIAvailability :: "string \<Rightarrow> child_event list \<Rightarrow> promise" where
  "checkCLIAvailability type evs =
     (case child_process_spawn type evs of
        Throws msg \<Rightarrow> Rejected msg
      | Child es \<Rightarrow> foldl resolve Pending es)"

text \<open>
  \<open>startCLI(socket, data)\<close>: the part that runs at once looks the terminal up and
  either emits \<open>cli:error\<close> or starts the availability check; the \<open>then\<close> callback
  runs when the promise has resolved, on the terminal entry captured before, and the
  \<open>catch\<close> callback when it has been rejected.
\<close>

definition startCLI :: "socket_id \<Rightarrow> string \<Rightarrow> string \<Rightarrow> server \<Rightarrow> server" where
  "startCLI sock type terminalId s =
     (case map_of (terminals s) terminalId of
        None \<Rightarrow> emit sock (CliError ''Terminal not found'' None) s
      | Some t \<Rightarrow> s\<lparr>pending := pending s @
            [\<lparr>probe_socket = sock, probe_type = type, probe_terminalId = terminalId,
              probe_terminal = t\<rparr>]\<rparr>)"

definition startCLI_then :: "probe \<Rightarrow> bool \<Rightarrow> nat \<Rightarrow> server \<Rightarrow> server" where
  "startCLI_then p available now s =
     (let type = probe_type p; terminalId = probe_terminalId p in
      if available
      then (let s1 = pty_write (ptyProcess (probe_terminal p)) (type @ CR) s;
                s2 = s1\<lparr>cliProcesses := AList.update terminalId
                       \<lparr>cli_type = type, active = True, startedAt = now\<rparr> (cliProcesses s1)\<rparr>
            in emit (probe_socket p)
                 (CliStarted terminalId type (type @ '' CLI started successfully'')) s2)
      else emit (probe_socket p)
             (CliError (type @ '' CLI not installed'')
                (Some (if type = ''gemini''
                       then ''Install with: npm install -g @google/gemini-cli''
                       else ''Install with: npm install -g @anthropic-ai/claude-cli''))) s)"

definition startCLI_catch :: "probe \<Rightarrow> string \<Rightarrow> server \<Rightarrow> server" where
  "startCLI_catch p message s = emit (probe_socket p) (CliError message None) s"

definition probe_settled :: "nat \<Rightarrow> child_event list \<Rightarrow> nat \<Rightarrow> server \<Rightarrow> server" where
  "probe_settled i evs now s =
     (if i < length (pending s)
      then (case checkCLIAvailability (probe_type (pending s ! i)) evs of
              Pending \<Rightarrow> s
            | Resolved available \<Rightarrow>
                startCLI_then (pending s ! i) available now
                  (s\<lparr>pending := take i (pending s) @ drop (Suc i) (pending s)\<rparr>)
            | Rejected message \<Rightarrow>
                startCLI_catch (pending s ! i) message
                  (s\<lparr>pending := take i (pending s) @ drop (Suc i) (pending s)\<rparr>))
      else s)"

text \<open>\<open>buildEnrichedPrompt(command, context)\<close>.\<close>

definition buildEnrichedPrompt :: "string \<Rightarrow> cli_context \<Rightarrow> string" where
  "buildEnrichedPrompt command ctx =
     (let prompt = [];
          prompt = (if truthy (currentFile ctx)
                    then prompt @ emoji_file_folder @ '' Current file: '' @ the (currentFile ctx) @ LF
                    else prompt);
          prompt = (if truthy (selectedCode ctx)
                    then prompt @ emoji_direct_hit @ '' Selected code:'' @ LF @ fence @ LF
                           @ the (selectedCode ctx) @ LF @ fence @ LF @ LF
                    else prompt);
          prompt = (if truthy (projectInfo ctx)
                    then prompt @ emoji_open_folder @ '' Project: '' @ the (projectInfo ctx) @ LF @ LF
                    else prompt)
      in prompt @ command)"

text \<open>\<open>sendCLICommand(socket, data)\<close>.\<close>

definition sendCLICommand :: "socket_id \<Rightarrow> string \<Rightarrow> string \<Rightarrow> cli_context \<Rightarrow> server \<Rightarrow> server" where
  "sendCLICommand sock terminalId command ctx s =
     (case (map_of (terminals s) terminalId, map_of (cliProcesses s) terminalId) of
        (Some t, Some cliProcess) \<Rightarrow>
          (let enrichedCommand = buildEnrichedPrompt command ctx;
               s1 = pty_write (ptyProcess t) (enrichedCommand @ CR) s
           in emit sock (CliCommandSent terminalId enrichedCommand (cli_type cliProcess)) s1)
      | _ \<Rightarrow> emit sock (CliError ''CLI not active'' None) s)"

text \<open>\<open>stopCLI(socket, data)\<close>.\<close>

definition stopCLI :: "socket_id \<Rightarrow> string \<Rightarrow> server \<Rightarrow> server" where
  "stopCLI sock terminalId s =
     (case map_of (cliProcesses s) terminalId of
        Some cliProcess \<Rightarrow>
          (let s1 = (case map_of (terminals s) terminalId of
                       Some t \<Rightarrow> pty_write (ptyProcess t) CTRL_C s
                     | None \<Rightarrow> s);
               s2 = s1\<lparr>cliProcesses := AList.delete terminalId (cliProcesses s1)\<rparr>
           in emit sock (CliStopped terminalId (cli_type cliProcess)) s2)
      | None \<Rightarrow> s)"

text \<open>
  \<open>cleanup(socket)\<close> walks the entries of \<open>this.terminals\<close> and, for each entry of
  the socket, kills the process and deletes the identifier from both maps. The iterator
  of a \<open>Map\<close> is live, but the body deletes no entry other than the one being visited,
  so the entries still to visit are those that followed it when the loop began.
\<close>

fun cleanup_loop :: "socket_id \<Rightarrow> (string \<times> terminal) list \<Rightarrow> server \<Rightarrow> server" where
  "cleanup_loop sock [] s = s"
| "cleanup_loop sock ((terminalId, t) # rest) s =
     cleanup_loop sock rest
       (if socket t = sock
        then (let s1 = pty_kill (ptyProcess t) s;
                  s2 = s1\<lparr>terminals := AList.delete terminalId (terminals s1)\<rparr>
              in s2\<lparr>cliProcesses := AList.delete terminalId (cliProcesses s2)\<rparr>)
        else s)"

definition cleanup :: "socket_id \<Rightarrow> server \<Rightarrow> server" where
  "cleanup sock s = cleanup_loop sock (terminals s) s"

subsection \<open>The event loop\<close>

text \<open>
  Everything that can happen to the server: a message of a client on its socket, the
  disconnect of a socket, data or the exit of a spawned process, and the settling of an
  availability check. The server handles one event at a time.
\<close>

datatype event =
    TerminalCreate socket_id create_data nat
  | TerminalInput socket_id string string
  | TerminalResize socket_id string nat nat
  | CliStart socket_id string string
  | CliCommand socket_id string string cli_context
  | CliStop socket_id string
  | Disconnect socket_id
  | PtyData handle string
  | PtyExit handle int "string option"
  | ProbeSettled nat "child_event list" nat

fun step :: "event \<Rightarrow> server \<Rightarrow> server" where
  "step (TerminalCreate sock data now) s = createTerminal sock data now s"
| "step (TerminalInput sock terminalId input) s = terminal_input terminalId input s"
| "step (TerminalResize sock terminalId c r) s = terminal_resize terminalId c r s"
| "step (CliStart sock type terminalId) s = startCLI sock type terminalId s"
| "step (CliCommand sock terminalId command ctx) s = sendCLICommand sock terminalId command ctx s"
| "step (CliStop sock terminalId) s = stopCLI sock terminalId s"
| "step (Disconnect sock) s = cleanup sock s"
| "step (PtyData h d) s = onData h d s"
| "step (PtyExit h exitCode signal) s = onExit h exitCode signal s"
| "step (ProbeSettled i evs now) s = probe_settled i evs now s"

definition run :: "event list \<Rightarrow> server \<Rightarrow> server" where
  "run evs s = foldl (\<lambda>st ev. step ev st) s evs"

text \<open>The server after its constructor: both maps empty, nothing spawned or emitted.\<close>

definition init :: "string \<Rightarrow> string \<Rightarrow> string option \<Rightarrow> server" where
  "init root plat sh =
     \<lparr>terminals = [], cliProcesses = [], workspaceRoot = root, platform = plat,
      env_SHELL = sh, ptys = [], kills = [], emitted = [], pending = []\<rparr>"

inductive reachable :: "server \<Rightarrow> bool" where
  reachable_init: "reachable (init root plat sh)"
| reachable_step: "reachable s \<Longrightarrow> reachable (step ev s)"


subsection \<open>Notions used to state the properties\<close>

text \<open>The entries of a registry whose \<open>socket\<close> field is the given socket.\<close>

definition owned :: "socket_id \<Rightarrow> (string \<times> terminal) list \<Rightarrow> (string \<times> terminal) list" where
  "owned sock es = filter (\<lambda>e. socket (snd e) = sock) es"

text \<open>
  An entry of \<open>terminals\<close> is live when its handle is a spawned process that has not
  reported its exit and whose callbacks captured the key of the entry.
\<close>

definition live_entry :: "server \<Rightarrow> string \<times> terminal \<Rightarrow> bool" where
  "live_entry s e =
     (ptyProcess (snd e) < length (ptys s) \<and>
      \<not> exited (ptys s ! ptyProcess (snd e)) \<and>
      handler_terminalId (ptys s ! ptyProcess (snd e)) = fst e)"

text \<open>
  The processes of a connection that are still running: the handles of the processes
  spawned for the socket (their callbacks emit on it) that have not reported their exit.
\<close>

definition live_processes :: "socket_id \<Rightarrow> server \<Rightarrow> handle list" where
  "live_processes sock s =
     filter (\<lambda>h. handler_socket (ptys s ! h) = sock \<and> \<not> exited (ptys s ! h))
       [0..<length (ptys s)]"

text \<open>
  The three segments of an enriched command, each as a function of its own context
  field: nothing when the field is missing or empty, the line or block otherwise.
\<close>

definition current_file_line :: "string option \<Rightarrow> string" where
  "current_file_line v =
     (case v of None \<Rightarrow> []
      | Some f \<Rightarrow> if f = [] then [] else emoji_file_folder @ '' Current file: '' @ f @ LF)"

definition selected_code_block :: "string option \<Rightarrow> string" where
  "selected_code_block v =
     (case v of None \<Rightarrow> []
      | Some c \<Rightarrow> if c = [] then []
          else emoji_direct_hit @ '' Selected code:'' @ LF @ fence @ LF @ c @ LF @ fence @ LF @ LF)"

definition project_line :: "string option \<Rightarrow> string" where
  "project_line v =
     (case v of None \<Rightarrow> []
      | Some p \<Rightarrow> if p = [] then [] else emoji_open_folder @ '' Project: '' @ p @ LF @ LF)"

subsection \<open>Concrete requests and runs\<close>

text \<open>
  The front end creates its terminal under the fixed identifier \<open>main-terminal\<close>; the
  other two requests name another identifier and none.
\<close>

definition main_request :: create_data where
  "main_request =
     \<lparr>cd_terminalId = Some ''main-terminal'', cd_cols = None, cd_rows = None, cd_cwd = None\<rparr>"

definition second_request :: create_data where
  "second_request =
     \<lparr>cd_terminalId = Some ''second'', cd_cols = Some 80, cd_rows = Some 24,
      cd_cwd = Some ''/tmp''\<rparr>"

definition anonymous_request :: create_data where
  "anonymous_request =
     \<lparr>cd_terminalId = None, cd_cols = Some 80, cd_rows = Some 24, cd_cwd = None\<rparr>"

definition fresh_server :: server where
  "fresh_server = init ''/workspace'' ''linux'' None"

text \<open>One client has created its terminal.\<close>

definition one_session :: server where
  "one_session = run [TerminalCreate 1 main_request 1000] fresh_server"

text \<open>
  A client has created its terminal and started a CLI in it, and the shell has then
  exited.
\<close>

definition stale_overlay :: server where
  "stale_overlay =
     run [TerminalCreate 1 main_request 1000, CliStart 1 ''claude'' ''main-terminal'',
          ProbeSettled 0 [Close (Some 0)] 1500, PtyExit 0 0 None] fresh_server"

text \<open>One client has created its terminal twice, as a front end does that reconnects.\<close>

definition twice_created :: server where
  "twice_created =
     run [TerminalCreate 1 main_request 1000, TerminalCreate 1 main_request 2000] fresh_server"


text \<open>
  Socket 1 owns two terminals, one of them running a CLI; socket 2 owns one terminal,
  running a CLI.
\<close>

definition two_owners :: server where
  "two_owners =
     run [TerminalCreate 1 main_request 1000, TerminalCreate 2 second_request 2000,
          TerminalCreate 1 anonymous_request 3000, CliStart 1 ''claude'' ''main-terminal'',
          ProbeSettled 0 [Close (Some 0)] 3500, CliStart 2 ''gemini'' ''second'',
          ProbeSettled 0 [Close (Some 0)] 4000] fresh_server"

section \<open>Basic facts\<close>

lemmas handler_defs =
  createTerminal_def createTerminal_id_def getShell_def or_string_def or_nat_def
  terminal_input_def terminal_resize_def startCLI_def startCLI_then_def startCLI_catch_def
  probe_settled_def checkCLIAvailability_def child_process_spawn_def sendCLICommand_def
  stopCLI_def cleanup_def onData_def onExit_def
  emit_def pty_write_def pty_resize_def pty_kill_def run_def init_def Let_def

lemma emit_fields [simp]:
  "terminals (emit sock n s) = terminals s"
  "cliProcesses (emit sock n s) = cliProcesses s"
  "ptys (emit sock n s) = ptys s"
  "kills (emit sock n s) = kills s"
  "pending (emit sock n s) = pending s"
  "emitted (emit sock n s) = emitted s @ [(sock, n)]"
  by (simp_all add: emit_def)

lemma pty_write_fields [simp]:
  "terminals (pty_write h d s) = terminals s"
  "cliProcesses (pty_write h d s) = cliProcesses s"
  "kills (pty_write h d s) = kills s"
  "pending (pty_write h d s) = pending s"
  "emitted (pty_write h d s) = emitted s"
  "length (ptys (pty_write h d s)) = length (ptys s)"
  by (simp_all add: pty_write_def)

lemma pty_resize_fields [simp]:
  "terminals (pty_resize h c r s) = terminals s"
  "cliProcesses (pty_resize h c r s) = cliProcesses s"
  "kills (pty_resize h c r s) = kills s"
  "pending (pty_resize h c r s) = pending s"
  "emitted (pty_resize h c r s) = emitted s"
  "length (ptys (pty_resize h c r s)) = length (ptys s)"
  by (simp_all add: pty_resize_def)

lemma pty_write_nth [simp]:
  "exited (ptys (pty_write h d s) ! i) = exited (ptys s ! i)"
  "handler_terminalId (ptys (pty_write h d s) ! i) = handler_terminalId (ptys s ! i)"
  by (auto simp: pty_write_def nth_list_update)

lemma pty_resize_nth [simp]:
  "exited (ptys (pty_resize h c r s) ! i) = exited (ptys s ! i)"
  "handler_terminalId (ptys (pty_resize h c r s) ! i) = handler_terminalId (ptys s ! i)"
  by (auto simp: pty_resize_def nth_list_update)

subsection \<open>Association lists\<close>

lemma delete_filter_keys:
  "filter (\<lambda>e. fst e \<notin> K) (AList.delete k al) = filter (\<lambda>e. fst e \<notin> insert k K) al"
  by (induction al) (auto simp: AList.delete_eq)

lemma set_update_subset: "set (AList.update k v al) \<subseteq> insert (k, v) (set al)"
  by (induction al) auto

lemma set_delete: "set (AList.delete k al) = {e \<in> set al. fst e \<noteq> k}"
  by (auto simp: AList.delete_eq)




subsection \<open>Decimal rendering\<close>

lemma digit_char_values:
  "digit_char 0 = CHR ''0''" "digit_char 1 = CHR ''1''" "digit_char (Suc 0) = CHR ''1''"
  "digit_char 2 = CHR ''2''" "digit_char 3 = CHR ''3''" "digit_char 4 = CHR ''4''"
  "digit_char 5 = CHR ''5''" "digit_char 6 = CHR ''6''" "digit_char 7 = CHR ''7''"
  "digit_char 8 = CHR ''8''" "digit_char 9 = CHR ''9''"
  by code_simp+

lemma digit_char_inj: "a < 10 \<Longrightarrow> b < 10 \<Longrightarrow> digit_char a = digit_char b \<Longrightarrow> a = b"
  by (simp add: digit_char_def char_of_eq_iff take_bit_nat_eq_self)

lemma decimal_nonempty: "decimal n \<noteq> []" "[] \<noteq> decimal n"
  by (subst decimal.simps, simp)+

lemma decimal_inj: "decimal n = decimal m \<Longrightarrow> n = m"
proof (induction n arbitrary: m rule: decimal.induct)
  case (1 n)
  show ?case
  proof (cases "n < 10")
    case small_n: True
    show ?thesis
    proof (cases "m < 10")
      case True
      with small_n "1.prems" show ?thesis
        by (simp add: decimal.simps [of n] decimal.simps [of m] digit_char_inj)
    next
      case False
      with small_n "1.prems" show ?thesis
        by (simp add: decimal.simps [of n] decimal.simps [of m] decimal_nonempty)
    qed
  next
    case big_n: False
    show ?thesis
    proof (cases "m < 10")
      case True
      with big_n "1.prems" show ?thesis
        by (simp add: decimal.simps [of n] decimal.simps [of m] decimal_nonempty)
    next
      case False
      with big_n "1.prems" have
        pre: "decimal (n div 10) = decimal (m div 10)" and
        dig: "digit_char (n mod 10) = digit_char (m mod 10)"
        by (simp_all add: decimal.simps [of n] decimal.simps [of m])
      from "1.IH" [OF big_n pre] have q: "n div 10 = m div 10" .
      from dig have r: "n mod 10 = m mod 10"
        by (intro digit_char_inj) simp_all
      from q r show ?thesis
        by (metis div_mult_mod_eq)
    qed
  qed
qed

subsection \<open>What \<open>cleanup\<close> computes\<close>

text \<open>
  The loop deletes from both maps the keys of the entries of the socket, and signals
  their processes in the order of the entries; nothing else changes.
\<close>

lemma cleanup_loop_eq:
  "cleanup_loop sock es s =
     s\<lparr>terminals := filter (\<lambda>e. fst e \<notin> fst ` set (owned sock es)) (terminals s),
       cliProcesses := filter (\<lambda>e. fst e \<notin> fst ` set (owned sock es)) (cliProcesses s),
       kills := kills s @ map (\<lambda>e. ptyProcess (snd e)) (owned sock es)\<rparr>"
proof (induction es arbitrary: s)
  case Nil
  show ?case by (simp add: owned_def)
next
  case (Cons e es)
  obtain k t where e: "e = (k, t)" by (cases e)
  show ?case
  proof (cases "socket t = sock")
    case True
    then show ?thesis
      by (simp add: e Cons.IH owned_def pty_kill_def delete_filter_keys)
  next
    case False
    then show ?thesis
      by (simp add: e Cons.IH owned_def)
  qed
qed

lemma cleanup_eq:
  "cleanup sock s =
     s\<lparr>terminals := filter (\<lambda>e. fst e \<notin> fst ` set (owned sock (terminals s))) (terminals s),
       cliProcesses :=
         filter (\<lambda>e. fst e \<notin> fst ` set (owned sock (terminals s))) (cliProcesses s),
       kills := kills s @ map (\<lambda>e. ptyProcess (snd e)) (owned sock (terminals s))\<rparr>"
  by (simp add: cleanup_def cleanup_loop_eq)

subsection \<open>Invariants of the reachable states\<close>

text \<open>Both maps have one entry per key.\<close>

lemma step_distinct_terminals:
  "distinct (map fst (terminals s)) \<Longrightarrow> distinct (map fst (terminals (step ev s)))"
  by (cases ev)
     (auto simp: createTerminal_def Let_def terminal_input_def terminal_resize_def startCLI_def
        sendCLICommand_def stopCLI_def cleanup_eq onData_def onExit_def probe_settled_def
        startCLI_then_def startCLI_catch_def AList.distinct_update AList.distinct_delete
        distinct_map_filter
        split: option.splits promise.splits)

lemma step_distinct_cliProcesses:
  "distinct (map fst (cliProcesses s)) \<Longrightarrow> distinct (map fst (cliProcesses (step ev s)))"
  by (cases ev)
     (auto simp: createTerminal_def Let_def terminal_input_def terminal_resize_def startCLI_def
        sendCLICommand_def stopCLI_def cleanup_eq onData_def onExit_def probe_settled_def
        startCLI_then_def startCLI_catch_def AList.distinct_update AList.distinct_delete
        distinct_map_filter
        split: option.splits promise.splits)

lemma reachable_distinct_terminals: "reachable s \<Longrightarrow> distinct (map fst (terminals s))"
  by (induction rule: reachable.induct) (simp_all add: init_def step_distinct_terminals)

lemma reachable_distinct_cliProcesses: "reachable s \<Longrightarrow> distinct (map fst (cliProcesses s))"
  by (induction rule: reachable.induct) (simp_all add: init_def step_distinct_cliProcesses)

lemma reachable_run: "reachable s \<Longrightarrow> reachable (run evs s)"
  unfolding run_def
  by (induction evs arbitrary: s) (simp_all add: reachable_step)

text \<open>Every entry of \<open>terminals\<close> is live.\<close>

lemma live_entry_createTerminal:
  assumes "\<forall>e \<in> set (terminals s). live_entry s e"
    and "e \<in> set (terminals (createTerminal sock data now s))"
  shows "live_entry (createTerminal sock data now s) e"
proof -
  let ?v = "\<lparr>terminal_id = createTerminal_id data now, ptyProcess = length (ptys s),
             socket = sock, createdAt = now\<rparr>"
  from assms(2) have "e \<in> insert (createTerminal_id data now, ?v) (set (terminals s))"
    using set_update_subset [of "createTerminal_id data now" ?v "terminals s"]
    by (auto simp: createTerminal_def Let_def)
  then show ?thesis
  proof
    assume "e = (createTerminal_id data now, ?v)"
    then show ?thesis
      by (simp add: live_entry_def createTerminal_def Let_def)
  next
    assume "e \<in> set (terminals s)"
    with assms(1) have "live_entry s e" by blast
    then show ?thesis
      by (simp add: live_entry_def createTerminal_def Let_def nth_append)
  qed
qed

lemma live_entry_onExit:
  assumes "\<forall>e \<in> set (terminals s). live_entry s e"
    and "e \<in> set (terminals (onExit h exitCode signal s))"
  shows "live_entry (onExit h exitCode signal s) e"
proof (cases "h < length (ptys s) \<and> \<not> exited (ptys s ! h)")
  case False
  with assms show ?thesis
    by (auto simp: onExit_def)
next
  case True
  with assms(2) have e: "e \<in> set (terminals s)"
    and k: "fst e \<noteq> handler_terminalId (ptys s ! h)"
    by (auto simp: onExit_def Let_def set_delete)
  from assms(1) e have l: "live_entry s e" by blast
  with k have "ptyProcess (snd e) \<noteq> h"
    by (auto simp: live_entry_def)
  with l True show ?thesis
    by (simp add: live_entry_def onExit_def Let_def)
qed

lemma live_entry_step:
  assumes "\<forall>e \<in> set (terminals s). live_entry s e"
  shows "\<forall>e \<in> set (terminals (step ev s)). live_entry (step ev s) e"
proof (cases ev)
  case (TerminalCreate sock data now)
  with assms show ?thesis
    by (auto intro: live_entry_createTerminal)
next
  case (PtyExit h exitCode signal)
  with assms show ?thesis
    by (auto intro: live_entry_onExit)
next
  case (Disconnect sock)
  with assms show ?thesis
    by (auto simp: cleanup_eq live_entry_def)
next
  case (ProbeSettled i evs now)
  with assms show ?thesis
    by (auto simp: probe_settled_def startCLI_then_def startCLI_catch_def Let_def
          live_entry_def split: option.splits promise.splits)
qed (use assms in \<open>auto simp: terminal_input_def terminal_resize_def startCLI_def
       sendCLICommand_def stopCLI_def onData_def Let_def live_entry_def
       split: option.splits\<close>)

lemma reachable_live_entries:
  "reachable s \<Longrightarrow> \<forall>e \<in> set (terminals s). live_entry s e"
proof (induction rule: reachable.induct)
  case (reachable_init root plat sh)
  show ?case by (simp add: init_def)
next
  case (reachable_step s ev)
  then show ?case by (simp add: live_entry_step)
qed

text \<open>Hence no two entries hold the same process.\<close>

lemma reachable_distinct_handles:
  assumes "reachable s"
  shows "distinct (map (\<lambda>e. ptyProcess (snd e)) (terminals s))"
proof -
  have d: "distinct (map fst (terminals s))"
    using assms by (rule reachable_distinct_terminals)
  have l: "\<forall>e \<in> set (terminals s). live_entry s e"
    using assms by (rule reachable_live_entries)
  have "inj_on (\<lambda>e. ptyProcess (snd e)) (set (terminals s))"
  proof (rule inj_onI)
    fix x y assume x: "x \<in> set (terminals s)" and y: "y \<in> set (terminals s)"
      and h: "ptyProcess (snd x) = ptyProcess (snd y)"
    from l x have "handler_terminalId (ptys s ! ptyProcess (snd x)) = fst x"
      by (simp add: live_entry_def)
    moreover from l y have "handler_terminalId (ptys s ! ptyProcess (snd y)) = fst y"
      by (simp add: live_entry_def)
    ultimately have "fst x = fst y"
      using h by simp
    with d x y show "x = y"
      by (metis eq_key_imp_eq_value prod.collapse)
  qed
  moreover from d have "distinct (terminals s)"
    by (simp add: distinct_map)
  ultimately show ?thesis
    by (simp add: distinct_map)
qed

subsection \<open>The concrete runs, evaluated\<close>

lemma reachable_fresh_server: "reachable fresh_server"
  unfolding fresh_server_def by (rule reachable_init)

lemma one_session_eq:
  "one_session =
    \<lparr>terminals = [(''main-terminal'',
        \<lparr>terminal_id = ''main-terminal'', ptyProcess = 0, socket = 1, createdAt = 1000\<rparr>)],
     cliProcesses = [],
     workspaceRoot = ''/workspace'', platform = ''linux'', env_SHELL = None,
     ptys = [\<lparr>pty_shell = ''bash'', pty_cols = 120, pty_rows = 30, pty_cwd = ''/workspace'',
              handler_terminalId = ''main-terminal'', handler_socket = 1,
              written = [], exited = False\<rparr>],
     kills = [],
     emitted = [(1, TerminalCreated ''main-terminal'' ''bash'' ''/workspace'')],
     pending = []\<rparr>"
  by (simp add: one_session_def handler_defs main_request_def fresh_server_def)

lemma stale_overlay_eq:
  "stale_overlay =
    \<lparr>terminals = [],
     cliProcesses =
       [(''main-terminal'', \<lparr>cli_type = ''claude'', active = True, startedAt = 1500\<rparr>)],
     workspaceRoot = ''/workspace'', platform = ''linux'', env_SHELL = None,
     ptys = [\<lparr>pty_shell = ''bash'', pty_cols = 120, pty_rows = 30, pty_cwd = ''/workspace'',
              handler_terminalId = ''main-terminal'', handler_socket = 1,
              written = [''claude'' @ CR], exited = True\<rparr>],
     kills = [],
     emitted = [(1, TerminalCreated ''main-terminal'' ''bash'' ''/workspace''),
                (1, CliStarted ''main-terminal'' ''claude'' ''claude CLI started successfully''),
                (1, TerminalExit ''main-terminal'' 0 None)],
     pending = []\<rparr>"
  by (simp add: stale_overlay_def handler_defs main_request_def fresh_server_def)

lemma two_owners_eq:
  "two_owners =
    \<lparr>terminals =
       [(''main-terminal'',
           \<lparr>terminal_id = ''main-terminal'', ptyProcess = 0, socket = 1, createdAt = 1000\<rparr>),
        (''second'',
           \<lparr>terminal_id = ''second'', ptyProcess = 1, socket = 2, createdAt = 2000\<rparr>),
        (''terminal_3000'',
           \<lparr>terminal_id = ''terminal_3000'', ptyProcess = 2, socket = 1, createdAt = 3000\<rparr>)],
     cliProcesses =
       [(''main-terminal'', \<lparr>cli_type = ''claude'', active = True, startedAt = 3500\<rparr>),
        (''second'', \<lparr>cli_type = ''gemini'', active = True, startedAt = 4000\<rparr>)],
     workspaceRoot = ''/workspace'', platform = ''linux'', env_SHELL = None,
     ptys = [\<lparr>pty_shell = ''bash'', pty_cols = 120, pty_rows = 30, pty_cwd = ''/workspace'',
              handler_terminalId = ''main-terminal'', handler_socket = 1,
              written = [''claude'' @ CR], exited = False\<rparr>,
             \<lparr>pty_shell = ''bash'', pty_cols = 80, pty_rows = 24, pty_cwd = ''/tmp'',
              handler_terminalId = ''second'', handler_socket = 2,
              written = [''gemini'' @ CR], exited = False\<rparr>,
             \<lparr>pty_shell = ''bash'', pty_cols = 80, pty_rows = 24, pty_cwd = ''/workspace'',
              handler_terminalId = ''terminal_3000'', handler_socket = 1,
              written = [], exited = False\<rparr>],
     kills = [],
     emitted = [(1, TerminalCreated ''main-terminal'' ''bash'' ''/workspace''),
                (2, TerminalCreated ''second'' ''bash'' ''/tmp''),
                (1, TerminalCreated ''terminal_3000'' ''bash'' ''/workspace''),
                (1, CliStarted ''main-terminal'' ''claude'' ''claude CLI started successfully''),
                (2, CliStarted ''second'' ''gemini'' ''gemini CLI started successfully'')],
     pending = []\<rparr>"
  by (simp add: two_owners_def handler_defs main_request_def second_request_def
        anonymous_request_def fresh_server_def decimal.simps digit_char_values)

lemma twice_created_eq:
  "twice_created =
    \<lparr>terminals = [(''main-terminal'',
        \<lparr>terminal_id = ''main-terminal'', ptyProcess = 1, socket = 1, createdAt = 2000\<rparr>)],
     cliProcesses = [],
     workspaceRoot = ''/workspace'', platform = ''linux'', env_SHELL = None,
     ptys = [\<lparr>pty_shell = ''bash'', pty_cols = 120, pty_rows = 30, pty_cwd = ''/workspace'',
              handler_terminalId = ''main-terminal'', handler_socket = 1,
              written = [], exited = False\<rparr>,
             \<lparr>pty_shell = ''bash'', pty_cols = 120, pty_rows = 30, pty_cwd = ''/workspace'',
              handler_terminalId = ''main-terminal'', handler_socket = 1,
              written = [], exited = False\<rparr>],
     kills = [],
     emitted = [(1, TerminalCreated ''main-terminal'' ''bash'' ''/workspace''),
                (1, TerminalCreated ''main-terminal'' ''bash'' ''/workspace'')],
     pending = []\<rparr>"
  by (simp add: twice_created_def handler_defs main_request_def fresh_server_def)

lemma reachable_one_session: "reachable one_session"
  unfolding one_session_def by (rule reachable_run [OF reachable_fresh_server])

lemma reachable_two_owners: "reachable two_owners"
  unfolding two_owners_def by (rule reachable_run [OF reachable_fresh_server])


section \<open>The claims\<close>

subsection \<open>C1: a create request on a live identifier\<close>

text \<open>
  Claim C1, as the code has it. A create request sends no termination signal and
  leaves every process spawned before as it was, also when its identifier already
  denotes a live session: it spawns a new process, not yet exited, and stores it under
  the identifier in place of the old entry. So the registry of every reachable state
  holds at most one entry per identifier, while a replaced process keeps running
  without an entry.
\<close>

theorem createTerminal_replaces_entry:
  assumes "reachable s"
  shows "kills (createTerminal sock data now s) = kills s \<and>
         butlast (ptys (createTerminal sock data now s)) = ptys s \<and>
         map exited (ptys (createTerminal sock data now s)) = map exited (ptys s) @ [False] \<and>
         map_of (terminals (createTerminal sock data now s)) (createTerminal_id data now) =
           Some \<lparr>terminal_id = createTerminal_id data now, ptyProcess = length (ptys s),
                 socket = sock, createdAt = now\<rparr> \<and>
         distinct (map fst (terminals (createTerminal sock data now s)))"
proof -
  have "distinct (map fst (terminals s))"
    using assms by (rule reachable_distinct_terminals)
  then show ?thesis
    by (simp add: createTerminal_def Let_def AList.update_conv' AList.distinct_update)
qed

theorem createTerminal_replaces_entry_witness:
  "reachable one_session \<and>
   kills (createTerminal 2 main_request 2000 one_session) = [] \<and>
   map exited (ptys (createTerminal 2 main_request 2000 one_session)) = [False, False] \<and>
   map_of (terminals (createTerminal 2 main_request 2000 one_session)) ''main-terminal'' =
     Some \<lparr>terminal_id = ''main-terminal'', ptyProcess = 1, socket = 2, createdAt = 2000\<rparr>"
proof -
  have i: "createTerminal_id main_request 2000 = ''main-terminal''"
    by (simp add: createTerminal_id_def or_string_def main_request_def)
  have k: "kills one_session = []"
    and p: "map exited (ptys one_session) = [False]"
    and l: "length (ptys one_session) = 1"
    by (simp_all add: one_session_eq)
  from createTerminal_replaces_entry [OF reachable_one_session, of 2 main_request 2000]
    reachable_one_session i k p l
  show ?thesis by simp
qed

text \<open>
  Claim C1 as stated fails. Two clients create \<open>main-terminal\<close> one after the other:
  the identifier denotes a live session when the second request arrives, no kill signal
  is ever sent, and afterwards two processes that have not exited carry the identifier,
  the registry holding the second one only.
\<close>

theorem createTerminal_live_id_counterexample:
  "map_of (terminals (run [TerminalCreate 1 main_request 1000] fresh_server)) ''main-terminal''
     \<noteq> None \<and>
   kills (run [TerminalCreate 1 main_request 1000, TerminalCreate 2 main_request 2000]
            fresh_server) = [] \<and>
   map exited (ptys (run [TerminalCreate 1 main_request 1000, TerminalCreate 2 main_request 2000]
            fresh_server)) = [False, False] \<and>
   map handler_terminalId
       (ptys (run [TerminalCreate 1 main_request 1000, TerminalCreate 2 main_request 2000]
            fresh_server)) = [''main-terminal'', ''main-terminal''] \<and>
   map (\<lambda>e. (fst e, ptyProcess (snd e)))
       (terminals (run [TerminalCreate 1 main_request 1000, TerminalCreate 2 main_request 2000]
            fresh_server)) = [(''main-terminal'', 1)]"
  by (simp add: handler_defs main_request_def fresh_server_def)

subsection \<open>C2: the exit of a process\<close>

text \<open>
  Claim C2 asks the exit handler to remove the session entry and the overlay entry.
  The handler registered by \<open>createTerminal\<close> never touches \<open>cliProcesses\<close>, unlike
  \<open>cleanup\<close>, which deletes from both maps. After a terminal is created, a CLI
  started in it and the shell has exited, the session entry is gone, the exit has been
  notified, and the overlay entry is still there.
\<close>

theorem onExit_leaves_overlay:
  "cliProcesses (onExit h exitCode signal s) = cliProcesses s \<and>
   map_of (terminals stale_overlay) ''main-terminal'' = None \<and>
   map_of (cliProcesses stale_overlay) ''main-terminal'' =
     Some \<lparr>cli_type = ''claude'', active = True, startedAt = 1500\<rparr> \<and>
   last (emitted stale_overlay) = (1, TerminalExit ''main-terminal'' 0 None)"
  by (simp add: stale_overlay_eq onExit_def emit_def Let_def)

subsection \<open>C3: the disconnect of a connection\<close>

text \<open>
  Claim C3, as the code has it. \<open>cleanup\<close> walks the registry, not the processes. In
  every reachable state, \<open>cleanup\<close> of a socket sends one kill signal to the process of
  each registry entry the socket owns, in the order of the entries and to nothing else:
  as many signals as owned entries, to pairwise different processes, none of which has
  exited. Afterwards the registry has no entry owned by the socket, and no overlay
  entry under the identifier of such an entry. A running process of the socket that has
  no entry gets no signal.
\<close>

theorem cleanup_disconnect:
  assumes "reachable s"
  shows "kills (cleanup sock s)
           = kills s @ map (\<lambda>e. ptyProcess (snd e)) (owned sock (terminals s)) \<and>
         length (kills (cleanup sock s))
           = length (kills s) + length (owned sock (terminals s)) \<and>
         distinct (map (\<lambda>e. ptyProcess (snd e)) (owned sock (terminals s))) \<and>
         filter (\<lambda>e. exited (ptys s ! ptyProcess (snd e))) (owned sock (terminals s)) = [] \<and>
         owned sock (terminals (cleanup sock s)) = [] \<and>
         filter (\<lambda>e. fst e \<in> fst ` set (owned sock (terminals s)))
           (cliProcesses (cleanup sock s)) = []"
proof -
  have "distinct (map (\<lambda>e. ptyProcess (snd e)) (owned sock (terminals s)))"
    unfolding owned_def
    using reachable_distinct_handles [OF assms] by (rule distinct_map_filter)
  moreover have
    "filter (\<lambda>e. exited (ptys s ! ptyProcess (snd e))) (owned sock (terminals s)) = []"
    using reachable_live_entries [OF assms]
    by (auto simp: filter_empty_conv owned_def live_entry_def)
  moreover have "owned sock (terminals (cleanup sock s)) = []"
    by (auto simp: cleanup_eq owned_def filter_empty_conv)
  moreover have "filter (\<lambda>e. fst e \<in> fst ` set (owned sock (terminals s)))
      (cliProcesses (cleanup sock s)) = []"
    by (auto simp: cleanup_eq filter_empty_conv)
  ultimately show ?thesis
    by (simp add: cleanup_eq)
qed

theorem cleanup_disconnect_witness:
  "reachable two_owners \<and>
   length (owned 1 (terminals two_owners)) = 2 \<and>
   kills (cleanup 1 two_owners) = [0, 2] \<and>
   owned 1 (terminals (cleanup 1 two_owners)) = [] \<and>
   map fst (cliProcesses (cleanup 1 two_owners)) = [''second'']"
proof -
  have o: "owned 1 (terminals two_owners) =
      [(''main-terminal'',
          \<lparr>terminal_id = ''main-terminal'', ptyProcess = 0, socket = 1, createdAt = 1000\<rparr>),
       (''terminal_3000'',
          \<lparr>terminal_id = ''terminal_3000'', ptyProcess = 2, socket = 1, createdAt = 3000\<rparr>)]"
    by (simp add: two_owners_eq owned_def)
  have k: "kills two_owners = []"
    by (simp add: two_owners_eq)
  have c: "map fst (cliProcesses (cleanup 1 two_owners)) = [''second'']"
    by (simp add: two_owners_eq cleanup_def pty_kill_def)
  from cleanup_disconnect [OF reachable_two_owners, of 1] o k c reachable_two_owners
  show ?thesis by simp
qed

text \<open>
  Claim C3 as stated fails. A client creates its terminal twice and disconnects: the
  connection has two running processes, the registry holds the second one only, the
  disconnect sends one signal, and the first process runs on, with no signal and no
  entry.
\<close>

theorem cleanup_orphan_counterexample:
  "live_processes 1 twice_created = [0, 1] \<and>
   kills (cleanup 1 twice_created) = [1] \<and>
   terminals (cleanup 1 twice_created) = [] \<and>
   live_processes 1 (cleanup 1 twice_created) = [0, 1]"
  by (simp add: twice_created_eq cleanup_def pty_kill_def live_processes_def)

subsection \<open>C4: when a terminated session leaves the registry\<close>

text \<open>
  Claim C4, as the code has it. \<open>cleanup\<close>, the one operation of the server that
  terminates sessions, sends the kill signal to each session of the socket and removes
  its entry in the same step: when it returns, no entry of the socket is left, although
  no process has changed (none has reported its exit) and nothing has been emitted.
\<close>

theorem cleanup_removes_at_signal_time:
  "owned sock (terminals (cleanup sock s)) = [] \<and>
   kills (cleanup sock s) = kills s @ map (\<lambda>e. ptyProcess (snd e)) (owned sock (terminals s)) \<and>
   ptys (cleanup sock s) = ptys s \<and>
   emitted (cleanup sock s) = emitted s"
  by (auto simp: cleanup_eq owned_def filter_empty_conv)

text \<open>
  Claim C4 as stated fails. A client creates its terminal and disconnects: the entry is
  gone as soon as the signal is sent, while the process has not exited and no
  \<open>terminal:exit\<close> has been emitted.
\<close>

theorem cleanup_waits_for_exit_counterexample:
  "map_of (terminals one_session) ''main-terminal'' \<noteq> None \<and>
   map_of (terminals (cleanup 1 one_session)) ''main-terminal'' = None \<and>
   kills (cleanup 1 one_session) = [0] \<and>
   map exited (ptys (cleanup 1 one_session)) = [False] \<and>
   emitted (cleanup 1 one_session) = [(1, TerminalCreated ''main-terminal'' ''bash'' ''/workspace'')]"
  by (simp add: one_session_eq cleanup_def pty_kill_def)

subsection \<open>C5: the enriched command\<close>

text \<open>
  Claim C5, as the code has it. The enriched command is the current-file line, the
  fenced selected-code block, the project line and the raw command, in this order; a
  segment is emitted if and only if its context field is present and not the empty
  string.
\<close>

theorem buildEnrichedPrompt_segments:
  "buildEnrichedPrompt command ctx =
     current_file_line (currentFile ctx) @ selected_code_block (selectedCode ctx)
       @ project_line (projectInfo ctx) @ command \<and>
   (current_file_line (currentFile ctx) = [] \<longleftrightarrow> currentFile ctx \<in> {None, Some []}) \<and>
   (selected_code_block (selectedCode ctx) = [] \<longleftrightarrow> selectedCode ctx \<in> {None, Some []}) \<and>
   (project_line (projectInfo ctx) = [] \<longleftrightarrow> projectInfo ctx \<in> {None, Some []})"
  by (auto simp: buildEnrichedPrompt_def truthy_def current_file_line_def
        selected_code_block_def project_line_def emoji_file_folder_def emoji_direct_hit_def
        emoji_open_folder_def Let_def split: option.splits)

text \<open>The example of the specification: all four parts, in order.\<close>

theorem buildEnrichedPrompt_segments_witness:
  "buildEnrichedPrompt ''explain''
       \<lparr>currentFile = Some ''a.ts'', selectedCode = Some ''x=1'', projectInfo = Some ''P''\<rparr> =
     emoji_file_folder @ '' Current file: a.ts'' @ LF
       @ emoji_direct_hit @ '' Selected code:'' @ LF @ fence @ LF @ ''x=1'' @ LF @ fence @ LF @ LF
       @ emoji_open_folder @ '' Project: P'' @ LF @ LF
       @ ''explain''"
  using buildEnrichedPrompt_segments [of "''explain''"
      "\<lparr>currentFile = Some ''a.ts'', selectedCode = Some ''x=1'', projectInfo = Some ''P''\<rparr>"]
  by (simp add: current_file_line_def selected_code_block_def project_line_def)

text \<open>
  Claim C5 as stated fails: a current file that is present and empty gives no
  current-file line.
\<close>

theorem buildEnrichedPrompt_present_counterexample:
  "currentFile \<lparr>currentFile = Some [], selectedCode = None, projectInfo = None\<rparr> \<noteq> None \<and>
   buildEnrichedPrompt ''explain''
       \<lparr>currentFile = Some [], selectedCode = None, projectInfo = None\<rparr> = ''explain''"
  by (simp add: buildEnrichedPrompt_def truthy_def)

subsection \<open>C6: a command without an active CLI\<close>

text \<open>
  Claim C6. When the identifier has no entry in \<open>terminals\<close> or none in
  \<open>cliProcesses\<close>, \<open>sendCLICommand\<close> emits the error \<open>CLI not active\<close> on the
  requesting socket and changes nothing else: no process is written to.
\<close>

theorem sendCLICommand_not_active:
  assumes "map_of (terminals s) terminalId = None \<or> map_of (cliProcesses s) terminalId = None"
  shows "sendCLICommand sock terminalId command ctx s =
           s\<lparr>emitted := emitted s @ [(sock, CliError ''CLI not active'' None)]\<rparr> \<and>
         ptys (sendCLICommand sock terminalId command ctx s) = ptys s"
  using assms by (auto simp: sendCLICommand_def emit_def split: option.splits)

theorem sendCLICommand_not_active_witness:
  "(map_of (terminals one_session) ''main-terminal'' = None \<or>
    map_of (cliProcesses one_session) ''main-terminal'' = None) \<and>
   emitted (sendCLICommand 1 ''main-terminal'' ''explain''
      \<lparr>currentFile = Some ''a.ts'', selectedCode = None, projectInfo = None\<rparr> one_session) =
     [(1, TerminalCreated ''main-terminal'' ''bash'' ''/workspace''),
      (1, CliError ''CLI not active'' None)] \<and>
   concat (map written (ptys (sendCLICommand 1 ''main-terminal'' ''explain''
      \<lparr>currentFile = Some ''a.ts'', selectedCode = None, projectInfo = None\<rparr> one_session)))
     = []"
proof -
  have h: "map_of (terminals one_session) ''main-terminal'' = None \<or>
           map_of (cliProcesses one_session) ''main-terminal'' = None"
    by (simp add: one_session_eq)
  from sendCLICommand_not_active [OF h, of 1 "''explain''"
      "\<lparr>currentFile = Some ''a.ts'', selectedCode = None, projectInfo = None\<rparr>"] h
  show ?thesis by (simp add: one_session_eq)
qed

subsection \<open>C7: write, resize and stop without a session\<close>

text \<open>
  Claim C7, as the code has it. When the identifier has no entry in \<open>terminals\<close>,
  the handlers of \<open>terminal:input\<close> and \<open>terminal:resize\<close> leave the state as it is.
  \<open>stopCLI\<close> looks the identifier up in \<open>cliProcesses\<close>: without an overlay entry it
  leaves the state as it is; with one, it removes that entry and emits \<open>cli:stopped\<close>,
  writes to no process and emits no error.
\<close>

theorem absent_session_operations:
  assumes "map_of (terminals s) terminalId = None"
  shows "terminal_input terminalId input s = s \<and>
         terminal_resize terminalId c r s = s \<and>
         stopCLI sock terminalId s =
           (case map_of (cliProcesses s) terminalId of
              None \<Rightarrow> s
            | Some cliProcess \<Rightarrow>
                s\<lparr>cliProcesses := AList.delete terminalId (cliProcesses s),
                  emitted := emitted s @ [(sock, CliStopped terminalId (cli_type cliProcess))]\<rparr>)"
  using assms
  by (simp add: terminal_input_def terminal_resize_def stopCLI_def emit_def split: option.splits)

theorem absent_session_operations_witness:
  "map_of (terminals fresh_server) ''gone'' = None \<and>
   terminal_input ''gone'' ''ls'' fresh_server = fresh_server \<and>
   terminal_resize ''gone'' 80 24 fresh_server = fresh_server \<and>
   stopCLI 1 ''gone'' fresh_server = fresh_server"
proof -
  have h: "map_of (terminals fresh_server) ''gone'' = None"
    by (simp add: fresh_server_def init_def)
  have c: "map_of (cliProcesses fresh_server) ''gone'' = None"
    by (simp add: fresh_server_def init_def)
  from absent_session_operations [OF h, of "''ls''" 80 24 1] h c
  show ?thesis by simp
qed

text \<open>
  Claim C7 as stated fails for stop. Once the shell of a terminal running a CLI has
  exited, the identifier denotes no session, and a stop request on it changes the
  state: it removes the overlay entry and emits \<open>cli:stopped\<close>.
\<close>

theorem stopCLI_noop_counterexample:
  "map_of (terminals stale_overlay) ''main-terminal'' = None \<and>
   stopCLI 1 ''main-terminal'' stale_overlay \<noteq> stale_overlay \<and>
   cliProcesses (stopCLI 1 ''main-terminal'' stale_overlay) = [] \<and>
   last (emitted (stopCLI 1 ''main-terminal'' stale_overlay))
     = (1, CliStopped ''main-terminal'' ''claude'')"
proof -
  have "cliProcesses (stopCLI 1 ''main-terminal'' stale_overlay) \<noteq> cliProcesses stale_overlay"
    by (simp add: stale_overlay_eq stopCLI_def emit_def)
  then have "stopCLI 1 ''main-terminal'' stale_overlay \<noteq> stale_overlay"
    by auto
  then show ?thesis
    by (simp add: stale_overlay_eq stopCLI_def emit_def)
qed

subsection \<open>C8: the availability check\<close>




subsection \<open>C9: the generated identifier\<close>

text \<open>
  Claim C9, as the code has it. When the request carries no identifier (or an empty
  one), the identifier is \<open>terminal_\<close> followed by the clock reading in decimal, and
  nothing is compared with the live sessions: two such requests get the same identifier
  exactly when their clock readings are equal.
\<close>

theorem createTerminal_generated_id:
  assumes "\<not> truthy (cd_terminalId d1)" and "\<not> truthy (cd_terminalId d2)"
  shows "createTerminal_id d1 now1 = ''terminal_'' @ decimal now1 \<and>
         (createTerminal_id d1 now1 = createTerminal_id d2 now2 \<longleftrightarrow> now1 = now2)"
  using assms
  by (auto simp: createTerminal_id_def or_string_def truthy_def dest: decimal_inj
           split: option.splits)

theorem createTerminal_generated_id_witness:
  "\<not> truthy (cd_terminalId anonymous_request) \<and>
   createTerminal_id anonymous_request 1000 = ''terminal_1000'' \<and>
   createTerminal_id anonymous_request 1000 \<noteq> createTerminal_id anonymous_request 1001"
proof -
  have h: "\<not> truthy (cd_terminalId anonymous_request)"
    by (simp add: truthy_def anonymous_request_def)
  have d: "decimal 1000 = ''1000''"
    by (simp add: decimal.simps digit_char_values)
  note t = createTerminal_generated_id [OF h h, of 1000 1001]
  from t d have a: "createTerminal_id anonymous_request 1000 = ''terminal_1000''"
    by simp
  from t have b:
    "createTerminal_id anonymous_request 1000 \<noteq> createTerminal_id anonymous_request 1001"
    by auto
  from h a b show ?thesis by blast
qed

text \<open>
  Claim C9 as stated fails. Two requests without identifier arrive within the same
  millisecond: the identifier generated for the second denotes the live session of the
  first, and afterwards two processes that have not exited carry it.
\<close>

theorem generated_id_unique_counterexample:
  "cd_terminalId anonymous_request = None \<and>
   map_of (terminals (run [TerminalCreate 1 anonymous_request 1700000000000] fresh_server))
      (createTerminal_id anonymous_request 1700000000000) \<noteq> None \<and>
   map exited (ptys (run [TerminalCreate 1 anonymous_request 1700000000000,
                          TerminalCreate 1 anonymous_request 1700000000000] fresh_server))
     = [False, False] \<and>
   map handler_terminalId (ptys (run [TerminalCreate 1 anonymous_request 1700000000000,
                          TerminalCreate 1 anonymous_request 1700000000000] fresh_server))
     = [''terminal_1700000000000'', ''terminal_1700000000000'']"
  by (simp add: handler_defs anonymous_request_def fresh_server_def decimal.simps
        digit_char_values)

subsection \<open>C10: what a disconnect leaves alone\<close>



end
